theory Spec2Isabelle
  imports Main "HOL-Library.Char_ord" "HOL-Library.List_Lexorder"
begin

section \<open>Reflection-history analyzer (gather\_history.py)\<close>

text \<open>
  The development embeds \<^verbatim>\<open>scripts/gather_history.py\<close>: the section parser
  \<^verbatim>\<open>parse_reflection_file\<close> with its helper \<^verbatim>\<open>_save_section\<close>, the keyword extractor
  \<^verbatim>\<open>extract_keywords\<close>, the aggregator \<^verbatim>\<open>analyze_recurring_themes\<close> and the parsing loop
  of \<^verbatim>\<open>main\<close>.

  A Python \<^verbatim>\<open>str\<close> is modelled as a \<^typ>\<open>string\<close> whose characters are the code points
  below 256 (Latin-1); the character classes used by \<^verbatim>\<open>str.strip\<close>, \<^verbatim>\<open>str.lower\<close> and the
  \<^verbatim>\<open>re\<close> module are written out for exactly that range. Strings are compared by code
  point, lexicographically, as Python compares them.
\<close>

subsection \<open>Python string primitives\<close>

definition code_point :: "char \<Rightarrow> nat" where
  "code_point c = of_char c"

text \<open>\<^verbatim>\<open>str.isspace\<close> on one character: TAB..CR, FS..US, SPACE, NEL and NBSP.\<close>

definition isspace :: "char \<Rightarrow> bool" where
  "isspace c =
     (let n = code_point c
      in (9 \<le> n \<and> n \<le> 13) \<or> (28 \<le> n \<and> n \<le> 32) \<or> n = 133 \<or> n = 160)"

text \<open>\<^verbatim>\<open>str.strip()\<close> without argument removes leading and trailing whitespace.\<close>

definition strip :: "string \<Rightarrow> string" where
  "strip s = rev (dropWhile isspace (rev (dropWhile isspace s)))"

text \<open>\<^verbatim>\<open>str.lower()\<close>: the upper-case letters below 256 are A..Z and U+00C0..U+00DE
  without the multiplication sign U+00D7; each has its lower-case form 32 above.\<close>

definition isupper :: "char \<Rightarrow> bool" where
  "isupper c =
     (let n = code_point c
      in (65 \<le> n \<and> n \<le> 90) \<or> (192 \<le> n \<and> n \<le> 222 \<and> n \<noteq> 215))"

definition lower_char :: "char \<Rightarrow> char" where
  "lower_char c = (if isupper c then char_of (code_point c + 32) else c)"

definition lower :: "string \<Rightarrow> string" where
  "lower s = map lower_char s"

text \<open>\<^verbatim>\<open>s.startswith(p)\<close> and the substring test \<^verbatim>\<open>p in s\<close>.\<close>

definition startswith :: "string \<Rightarrow> string \<Rightarrow> bool" where
  "startswith s p = (take (length p) s = p)"

fun contains :: "string \<Rightarrow> string \<Rightarrow> bool" where
  "contains [] p = (p = [])"
| "contains (c # cs) p = (startswith (c # cs) p \<or> contains cs p)"

text \<open>\<^verbatim>\<open>s.split("\n")\<close>: the pieces between line feeds; never the empty list.\<close>

definition newline :: char where
  "newline = CHR 0x0A"

fun split_lines :: "string \<Rightarrow> string list" where
  "split_lines [] = [[]]"
| "split_lines (c # cs) =
     (if c = newline then [] # split_lines cs
      else (case split_lines cs of
              [] \<Rightarrow> [[c]]
            | l # ls \<Rightarrow> (c # l) # ls))"

text \<open>\<^verbatim>\<open>s.replace("-", " ")\<close>, both arguments of length one.\<close>

definition replace_char :: "char \<Rightarrow> char \<Rightarrow> string \<Rightarrow> string" where
  "replace_char a b s = map (\<lambda>c. if c = a then b else c) s"

subsection \<open>The parsed record\<close>

text \<open>The dictionary \<^verbatim>\<open>reflection\<close> built by \<^verbatim>\<open>parse_reflection_file\<close>: ten fixed keys
  (\<open>file_key\<close> is the key \<^verbatim>\<open>"file"\<close>).\<close>

record reflection =
  file_key :: string
  date :: string
  topic :: string
  summary :: string
  discoveries :: "string list"
  improvements_made :: "string list"
  issues_created :: "string list"
  open_questions :: "string list"
  patterns_to_watch :: "string list"
  anti_patterns :: "string list"

text \<open>What the parser uses of a \<^verbatim>\<open>pathlib.Path\<close>: \<^verbatim>\<open>str(filepath)\<close>, \<^verbatim>\<open>filepath.stem\<close> and
  \<^verbatim>\<open>filepath.read_text()\<close>, where \<open>None\<close> stands for a raised exception.\<close>

record filepath =
  path_str :: string
  stem :: string
  read_text :: "string option"

subsection \<open>Date and topic from the file name\<close>

text \<open>\<^verbatim>\<open>\d\<close> on code points below 256 is 0..9.\<close>

definition isdigit :: "char \<Rightarrow> bool" where
  "isdigit c = (48 \<le> code_point c \<and> code_point c \<le> 57)"

text \<open>The pieces of the pattern \<^verbatim>\<open>(\d{4}-\d{2}-\d{2})-(.+)\<close>, each returning what is left of
  the text after it, or \<open>None\<close> when it does not match: \<^verbatim>\<open>\d{n}\<close> and a literal
  character.\<close>

fun digits :: "nat \<Rightarrow> string \<Rightarrow> string option" where
  "digits 0 s = Some s"
| "digits (Suc n) [] = None"
| "digits (Suc n) (c # cs) = (if isdigit c then digits n cs else None)"

fun literal :: "char \<Rightarrow> string \<Rightarrow> string option" where
  "literal a [] = None"
| "literal a (c # cs) = (if c = a then Some cs else None)"

text \<open>The first group \<^verbatim>\<open>\d{4}-\d{2}-\d{2}\<close> at the start of a text.\<close>

definition date_prefix :: "string \<Rightarrow> string option" where
  "date_prefix s =
     Option.bind (digits 4 s) (\<lambda>r1.
     Option.bind (literal CHR ''-'' r1) (\<lambda>r2.
     Option.bind (digits 2 r2) (\<lambda>r3.
     Option.bind (literal CHR ''-'' r3) (\<lambda>r4.
     digits 2 r4))))"


text \<open>\<^verbatim>\<open>re.match(r"(\d{4}-\d{2}-\d{2})-(.+)", filename)\<close>: anchored at the start only;
  \<^verbatim>\<open>.+\<close> takes the longest non-empty run of characters other than the line feed.
  The result is the pair of the two groups, the first being the ten characters matched.\<close>

definition re_match_filename :: "string \<Rightarrow> (string \<times> string) option" where
  "re_match_filename filename =
     Option.bind (date_prefix filename) (\<lambda>r1.
     Option.bind (literal CHR ''-'' r1) (\<lambda>r2.
       let g2 = takeWhile (\<lambda>c. c \<noteq> newline) r2
       in if g2 \<noteq> [] then Some (take 10 filename, g2) else None))"

subsection \<open>Classifying a section: \<^verbatim>\<open>_save_section\<close>\<close>

definition save_section :: "reflection \<Rightarrow> string \<Rightarrow> string list \<Rightarrow> reflection" where
  "save_section r section items =
     (let section_lower = lower section
      in if contains section_lower ''discover'' \<or>
            (contains section_lower ''pattern'' \<and> \<not> contains section_lower ''watch'')
         then r\<lparr>discoveries := discoveries r @ items\<rparr>
         else if contains section_lower ''improvement'' \<and> contains section_lower ''made''
         then r\<lparr>improvements_made := improvements_made r @ items\<rparr>
         else if contains section_lower ''issue'' \<or> contains section_lower ''created''
         then r\<lparr>issues_created := issues_created r @ items\<rparr>
         else if contains section_lower ''question''
         then r\<lparr>open_questions := open_questions r @ items\<rparr>
         else if contains section_lower ''watch'' \<or> contains section_lower ''pattern''
         then r\<lparr>patterns_to_watch := patterns_to_watch r @ items\<rparr>
         else if contains section_lower ''anti''
         then r\<lparr>anti_patterns := anti_patterns r @ items\<rparr>
         else r)"

subsection \<open>The section parser: \<^verbatim>\<open>parse_reflection_file\<close>\<close>

text \<open>The loop variables: the record under construction, \<^verbatim>\<open>current_section\<close>
  (\<open>None\<close> is Python's \<^verbatim>\<open>None\<close>) and \<^verbatim>\<open>current_items\<close>.\<close>

record parse_state =
  reflection_of :: reflection
  current_section :: "string option"
  current_items :: "string list"

text \<open>The test \<^verbatim>\<open>if current_section and current_items\<close>: \<^verbatim>\<open>None\<close>, the empty string and
  the empty list are false.\<close>

definition pending :: "parse_state \<Rightarrow> bool" where
  "pending st =
     ((case current_section st of None \<Rightarrow> False | Some s \<Rightarrow> s \<noteq> []) \<and> current_items st \<noteq> [])"

text \<open>Saving the previous section, when there is one with items.\<close>

definition flush :: "parse_state \<Rightarrow> reflection" where
  "flush st =
     (if pending st
      then save_section (reflection_of st) (the (current_section st)) (current_items st)
      else reflection_of st)"

text \<open>The text kept for a list-item line (the line already stripped): what follows the
  marker, stripped, without a leading checkbox token.\<close>

definition item_text :: "string \<Rightarrow> string" where
  "item_text line =
     (let item = strip (drop 2 line)
      in if startswith item ''[x] '' then drop 4 item
         else if startswith item ''[ ] '' then drop 4 item
         else item)"

text \<open>One iteration of the loop over the lines.\<close>

definition parse_line :: "parse_state \<Rightarrow> string \<Rightarrow> parse_state" where
  "parse_line st raw =
     (let line = strip raw
      in if startswith line ''## ''
         then \<lparr>reflection_of = flush st,
               current_section = Some (lower (drop 3 line)),
               current_items = []\<rparr>
         else if startswith line ''### '' then st
         else if startswith line ''- ''
         then (let item = item_text line
               in if item \<noteq> [] then st\<lparr>current_items := current_items st @ [item]\<rparr> else st)
         else if line \<noteq> [] \<and> current_section st = Some ''session summary''
         then st\<lparr>reflection_of := (reflection_of st)\<lparr>summary := line\<rparr>\<rparr>
         else st)"

definition parse_content :: "reflection \<Rightarrow> string \<Rightarrow> reflection" where
  "parse_content r content =
     flush (foldl parse_line
              \<lparr>reflection_of = r, current_section = None, current_items = []\<rparr>
              (split_lines content))"

text \<open>The dictionary literal that \<^verbatim>\<open>parse_reflection_file\<close> starts from.\<close>

definition new_reflection :: "string \<Rightarrow> string \<Rightarrow> string \<Rightarrow> reflection" where
  "new_reflection path date' topic' =
     \<lparr>file_key = path, date = date', topic = topic', summary = [],
      discoveries = [], improvements_made = [], issues_created = [],
      open_questions = [], patterns_to_watch = [], anti_patterns = []\<rparr>"

definition parse_reflection_file :: "filepath \<Rightarrow> reflection option" where
  "parse_reflection_file fp =
     (case read_text fp of
        None \<Rightarrow> None
      | Some content \<Rightarrow>
          (let filename = stem fp;
               (date', topic') =
                 (case re_match_filename filename of
                    Some (g1, g2) \<Rightarrow> (g1, replace_char CHR ''-'' CHR '' '' g2)
                  | None \<Rightarrow> ([], filename))
           in Some (parse_content (new_reflection (path_str fp) date' topic') content)))"



subsection \<open>Measures used in the statements\<close>

text \<open>The number of items stored in the six category lists of a record.\<close>

definition total_items :: "reflection \<Rightarrow> nat" where
  "total_items r =
     length (discoveries r) + length (improvements_made r) + length (issues_created r) +
     length (open_questions r) + length (patterns_to_watch r) + length (anti_patterns r)"

text \<open>A list-item line is a line that takes the \<^verbatim>\<open>line.startswith("- ")\<close> branch.\<close>

definition is_list_item_line :: "string \<Rightarrow> bool" where
  "is_list_item_line raw = startswith (strip raw) ''- ''"

definition list_item_lines :: "string \<Rightarrow> nat" where
  "list_item_lines content = length (filter is_list_item_line (split_lines content))"

subsection \<open>The classification as the specification words it\<close>

text \<open>The six rules of the specification, in its order, as a rule list searched for the
  first match; the name is lower-cased first (the match is case-insensitive).\<close>

datatype category =
  Discoveries | Improvements_made | Issues_created | Open_questions | Patterns_to_watch
  | Anti_patterns

definition spec_rules :: "((string \<Rightarrow> bool) \<times> category) list" where
  "spec_rules =
     [(\<lambda>n. contains n ''discover'' \<or> (contains n ''pattern'' \<and> \<not> contains n ''watch''),
         Discoveries),
      (\<lambda>n. contains n ''improvement'' \<and> contains n ''made'', Improvements_made),
      (\<lambda>n. contains n ''issue'' \<or> contains n ''created'', Issues_created),
      (\<lambda>n. contains n ''question'', Open_questions),
      (\<lambda>n. contains n ''watch'' \<or> contains n ''pattern'', Patterns_to_watch),
      (\<lambda>n. contains n ''anti'', Anti_patterns)]"

fun spec_first_match :: "((string \<Rightarrow> bool) \<times> category) list \<Rightarrow> string \<Rightarrow> category option" where
  "spec_first_match [] n = None"
| "spec_first_match ((p, c) # rules) n = (if p n then Some c else spec_first_match rules n)"

definition spec_classify :: "string \<Rightarrow> category option" where
  "spec_classify heading = spec_first_match spec_rules (lower heading)"

fun spec_append :: "category \<Rightarrow> string list \<Rightarrow> reflection \<Rightarrow> reflection" where
  "spec_append Discoveries items r = r\<lparr>discoveries := discoveries r @ items\<rparr>"
| "spec_append Improvements_made items r = r\<lparr>improvements_made := improvements_made r @ items\<rparr>"
| "spec_append Issues_created items r = r\<lparr>issues_created := issues_created r @ items\<rparr>"
| "spec_append Open_questions items r = r\<lparr>open_questions := open_questions r @ items\<rparr>"
| "spec_append Patterns_to_watch items r = r\<lparr>patterns_to_watch := patterns_to_watch r @ items\<rparr>"
| "spec_append Anti_patterns items r = r\<lparr>anti_patterns := anti_patterns r @ items\<rparr>"

subsection \<open>Example files\<close>

text \<open>A file whose only heading is \<^verbatim>\<open>## Random Notes\<close>, an empty file with a dated
  name, and a file with a checked checkbox that has no text.\<close>

definition random_notes_file :: filepath where
  "random_notes_file =
     \<lparr>path_str = ''notes.md'', stem = ''notes'',
      read_text = Some ''## Random Notes\<newline>- first\<newline>- second''\<rparr>"


definition empty_checkbox_file :: filepath where
  "empty_checkbox_file =
     \<lparr>path_str = ''notes.md'', stem = ''notes'',
      read_text = Some ''## Discoveries\<newline>- [x] ''\<rparr>"


subsection \<open>The keyword extractor: \<^verbatim>\<open>extract_keywords\<close>\<close>

text \<open>The character classes of the pattern \<^verbatim>\<open>\b[a-zA-Z][a-zA-Z0-9_-]+\b\<close>. A word character
  (\<^verbatim>\<open>\w\<close>, which decides \<^verbatim>\<open>\b\<close>) is an alphanumeric character or the underscore; below
  256 the alphanumeric characters are the ASCII letters and digits, U+00AA, U+00B2, U+00B3,
  U+00B5, U+00B9, U+00BA, U+00BC..U+00BE and the letters U+00C0..U+00FF without U+00D7 and
  U+00F7.\<close>

definition is_ascii_letter :: "char \<Rightarrow> bool" where
  "is_ascii_letter c =
     (let n = code_point c in (65 \<le> n \<and> n \<le> 90) \<or> (97 \<le> n \<and> n \<le> 122))"

definition is_tail_char :: "char \<Rightarrow> bool" where
  "is_tail_char c = (is_ascii_letter c \<or> isdigit c \<or> c = CHR ''_'' \<or> c = CHR ''-'')"

definition is_word_char :: "char \<Rightarrow> bool" where
  "is_word_char c =
     (let n = code_point c
      in is_ascii_letter c \<or> isdigit c \<or> c = CHR ''_'' \<or>
         n = 170 \<or> n = 178 \<or> n = 179 \<or> n = 181 \<or> n = 185 \<or> n = 186 \<or>
         (188 \<le> n \<and> n \<le> 190) \<or> (192 \<le> n \<and> n \<le> 214) \<or> (216 \<le> n \<and> n \<le> 246) \<or>
         248 \<le> n)"

text \<open>\<^verbatim>\<open>\b\<close> between the character before a position and the character at it (\<open>None\<close> at
  either end of the text): exactly one of the two is a word character.\<close>

definition word_boundary :: "char option \<Rightarrow> char option \<Rightarrow> bool" where
  "word_boundary prev next =
     ((case prev of None \<Rightarrow> False | Some c \<Rightarrow> is_word_char c) \<noteq>
      (case next of None \<Rightarrow> False | Some c \<Rightarrow> is_word_char c))"

text \<open>The greedy part \<^verbatim>\<open>[a-zA-Z0-9_-]*\b\<close> after a matched character \<open>p\<close>: the longest run
  of class characters that ends at a word boundary, found by backtracking from the longest
  run; \<open>None\<close> when no length does.\<close>

fun tail_match :: "char \<Rightarrow> string \<Rightarrow> string option" where
  "tail_match p [] = (if word_boundary (Some p) None then Some [] else None)"
| "tail_match p (c # cs) =
     (case (if is_tail_char c then tail_match c cs else None) of
        Some ext \<Rightarrow> Some (c # ext)
      | None \<Rightarrow> if word_boundary (Some p) (Some c) then Some [] else None)"

text \<open>One attempt of the whole pattern at a position, \<open>prev\<close> being the character in
  front of it: a boundary, a letter, and at least one more class character.\<close>

definition match_at :: "char option \<Rightarrow> string \<Rightarrow> string option" where
  "match_at prev s =
     (case s of
        [] \<Rightarrow> None
      | c # cs \<Rightarrow>
          if word_boundary prev (Some c) \<and> is_ascii_letter c
          then (case tail_match c cs of
                  Some (e # ext) \<Rightarrow> Some (c # e # ext)
                | _ \<Rightarrow> None)
          else None)"

text \<open>\<^verbatim>\<open>re.findall\<close>: the matches from left to right, each search starting where the
  previous match ended.\<close>

fun findall :: "char option \<Rightarrow> string \<Rightarrow> string list" where
  "findall prev [] = []"
| "findall prev (c # cs) =
     (case match_at prev (c # cs) of
        Some tok \<Rightarrow> tok # findall (Some (last tok)) (drop (length tok - 1) cs)
      | None \<Rightarrow> findall (Some c) cs)"

definition stop_words :: "string list" where
  "stop_words =
     [''the'', ''a'', ''an'', ''is'', ''are'', ''was'', ''were'', ''be'', ''been'', ''being'',
      ''have'', ''has'', ''had'', ''do'', ''does'', ''did'', ''will'', ''would'', ''could'',
      ''should'', ''may'', ''might'', ''must'', ''shall'', ''can'', ''to'', ''of'', ''in'',
      ''for'', ''on'', ''with'', ''at'', ''by'', ''from'', ''as'', ''into'', ''through'',
      ''during'', ''before'', ''after'', ''above'', ''below'', ''between'', ''under'',
      ''again'', ''further'', ''then'', ''once'', ''here'', ''there'', ''when'', ''where'',
      ''why'', ''how'', ''all'', ''each'', ''few'', ''more'', ''most'', ''other'', ''some'',
      ''such'', ''no'', ''nor'', ''not'', ''only'', ''own'', ''same'', ''so'', ''than'',
      ''too'', ''very'', ''just'', ''but'', ''and'', ''or'', ''if'', ''this'', ''that'',
      ''these'', ''those'', ''it'', ''its'', ''i'', ''we'', ''you'', ''he'', ''she'', ''they'',
      ''added'', ''updated'', ''created'', ''fixed'', ''issue'', ''bd'', ''see'', ''also'']"

definition extract_keywords :: "string \<Rightarrow> string list" where
  "extract_keywords text =
     (let words = findall None (lower text)
      in filter (\<lambda>w. \<not> List.member stop_words w \<and> length w > 2) words)"

subsection \<open>Counters and dictionaries\<close>

text \<open>A Python dictionary whose key order matters is an association list with distinct keys
  in insertion order. \<^verbatim>\<open>d[k] = v\<close> replaces the value of a present key in place and appends
  an absent key at the end; \<^verbatim>\<open>dict(pairs)\<close> stores the pairs one after the other.\<close>

fun dict_set :: "('k \<times> 'v) list \<Rightarrow> 'k \<Rightarrow> 'v \<Rightarrow> ('k \<times> 'v) list" where
  "dict_set [] k v = [(k, v)]"
| "dict_set ((k', v') # d) k v =
     (if k' = k then (k', v) # d else (k', v') # dict_set d k v)"

definition dict_of :: "('k \<times> 'v) list \<Rightarrow> ('k \<times> 'v) list" where
  "dict_of pairs = foldl (\<lambda>d (k, v). dict_set d k v) [] pairs"

type_synonym counter = "(string \<times> nat) list"

text \<open>\<^verbatim>\<open>counter[kw] += 1\<close>: a missing key of a \<^verbatim>\<open>Counter\<close> reads as 0.\<close>

definition counter_incr :: "counter \<Rightarrow> string \<Rightarrow> counter" where
  "counter_incr c kw = dict_set c kw ((case map_of c kw of None \<Rightarrow> 0 | Some n \<Rightarrow> n) + 1)"

text \<open>\<^verbatim>\<open>Counter.most_common(n)\<close>: the first \<open>n\<close> items of the items sorted by descending
  count, the sort being stable (items of equal count stay in dictionary order).\<close>

definition most_common :: "nat \<Rightarrow> counter \<Rightarrow> counter" where
  "most_common n c = take n (sort_key (\<lambda>item. - int (snd item)) c)"

subsection \<open>The theme aggregator: \<^verbatim>\<open>analyze_recurring_themes\<close>\<close>

text \<open>The local variables of the function: four counters and \<^verbatim>\<open>keyword_dates\<close>, a
  dictionary from keywords to sets of dates.\<close>

record tallies =
  discovery_counter :: counter
  improvement_counter :: counter
  question_counter :: counter
  pattern_counter :: counter
  keyword_dates :: "string \<rightharpoonup> string set"

text \<open>\<^verbatim>\<open>keyword_dates.setdefault(kw, set()).add(date)\<close>\<close>

definition add_date :: "(string \<rightharpoonup> string set) \<Rightarrow> string \<Rightarrow> string \<Rightarrow> (string \<rightharpoonup> string set)" where
  "add_date kd kw d = kd(kw \<mapsto> insert d (case kd kw of None \<Rightarrow> {} | Some s \<Rightarrow> s))"

text \<open>The bodies of the four innermost loops, one keyword each.\<close>

definition tally_discovery :: "string \<Rightarrow> tallies \<Rightarrow> string \<Rightarrow> tallies" where
  "tally_discovery d t kw =
     t\<lparr>discovery_counter := counter_incr (discovery_counter t) kw,
       keyword_dates := add_date (keyword_dates t) kw d\<rparr>"

definition tally_improvement :: "tallies \<Rightarrow> string \<Rightarrow> tallies" where
  "tally_improvement t kw = t\<lparr>improvement_counter := counter_incr (improvement_counter t) kw\<rparr>"

definition tally_question :: "string \<Rightarrow> tallies \<Rightarrow> string \<Rightarrow> tallies" where
  "tally_question d t kw =
     t\<lparr>question_counter := counter_incr (question_counter t) kw,
       keyword_dates := add_date (keyword_dates t) kw d\<rparr>"

definition tally_pattern :: "tallies \<Rightarrow> string \<Rightarrow> tallies" where
  "tally_pattern t kw = t\<lparr>pattern_counter := counter_incr (pattern_counter t) kw\<rparr>"

text \<open>The body of the loop over the reflections. Every record has the key \<^verbatim>\<open>date\<close>, so
  \<^verbatim>\<open>r.get("date", "unknown")\<close> is the date of the record.\<close>

definition tally_reflection :: "tallies \<Rightarrow> reflection \<Rightarrow> tallies" where
  "tally_reflection t r =
     (let d = date r;
          t1 = foldl (\<lambda>t discovery. foldl (tally_discovery d) t (extract_keywords discovery))
                 t (discoveries r);
          t2 = foldl (\<lambda>t improvement. foldl tally_improvement t (extract_keywords improvement))
                 t1 (improvements_made r);
          t3 = foldl (\<lambda>t question. foldl (tally_question d) t (extract_keywords question))
                 t2 (open_questions r)
      in foldl (\<lambda>t pattern. foldl tally_pattern t (extract_keywords pattern))
           t3 (patterns_to_watch r))"

definition tally_all :: "reflection list \<Rightarrow> tallies" where
  "tally_all reflections =
     foldl tally_reflection
       \<lparr>discovery_counter = [], improvement_counter = [], question_counter = [],
        pattern_counter = [], keyword_dates = Map.empty\<rparr>
       reflections"

text \<open>The result: the four truncated tables and the recurrence table, whose entries are
  the dictionaries \<^verbatim>\<open>{"count": count, "dates": sorted(keyword_dates.get(kw, []))}\<close>.\<close>

record recurring_entry =
  count :: nat
  dates :: "string list"

record themes =
  discovery_keywords :: counter
  improvement_keywords :: counter
  question_keywords :: counter
  pattern_keywords :: counter
  recurring_across_sessions :: "(string \<times> recurring_entry) list"

definition recurring_of :: "tallies \<Rightarrow> (string \<times> recurring_entry) list" where
  "recurring_of t =
     dict_of
       (map (\<lambda>(kw, count').
               (kw, \<lparr>count = count',
                     dates = (case keyword_dates t kw of
                                None \<Rightarrow> []
                              | Some s \<Rightarrow> sorted_list_of_set s)\<rparr>))
          (filter (\<lambda>(kw, count'). count' \<ge> 2) (most_common 20 (discovery_counter t))))"

definition analyze_recurring_themes :: "reflection list \<Rightarrow> themes" where
  "analyze_recurring_themes reflections =
     (let t = tally_all reflections
      in \<lparr>discovery_keywords = dict_of (most_common 15 (discovery_counter t)),
          improvement_keywords = dict_of (most_common 15 (improvement_counter t)),
          question_keywords = dict_of (most_common 10 (question_counter t)),
          pattern_keywords = dict_of (most_common 10 (pattern_counter t)),
          recurring_across_sessions = recurring_of t\<rparr>)"

section \<open>Properties of the section parser\<close>

subsection \<open>Checkbox items\<close>

text \<open>
  Claim C8. The list-item lines \<^verbatim>\<open>- [x] Fix bug\<close>, \<^verbatim>\<open>- Fix bug\<close> and \<^verbatim>\<open>- [ ] Fix bug\<close>
  all accumulate the same item text \<^verbatim>\<open>Fix bug\<close>: from any state of the loop, each of the
  three lines appends exactly that text to \<^verbatim>\<open>current_items\<close> and changes nothing else.
\<close>

theorem checkbox_items_equal:
  "parse_line st ''- [x] Fix bug'' = st\<lparr>current_items := current_items st @ [''Fix bug'']\<rparr> \<and>
   parse_line st ''- Fix bug'' = st\<lparr>current_items := current_items st @ [''Fix bug'']\<rparr> \<and>
   parse_line st ''- [ ] Fix bug'' = st\<lparr>current_items := current_items st @ [''Fix bug'']\<rparr>"
proof -
  have a: "strip ''- [x] Fix bug'' = ''- [x] Fix bug''" "strip ''- Fix bug'' = ''- Fix bug''"
    "strip ''- [ ] Fix bug'' = ''- [ ] Fix bug''"
    by code_simp+
  have b: "\<not> startswith ''- [x] Fix bug'' ''## ''" "\<not> startswith ''- [x] Fix bug'' ''### ''"
    "startswith ''- [x] Fix bug'' ''- ''"
    "\<not> startswith ''- Fix bug'' ''## ''" "\<not> startswith ''- Fix bug'' ''### ''"
    "startswith ''- Fix bug'' ''- ''"
    "\<not> startswith ''- [ ] Fix bug'' ''## ''" "\<not> startswith ''- [ ] Fix bug'' ''### ''"
    "startswith ''- [ ] Fix bug'' ''- ''"
    by code_simp+
  have c: "item_text ''- [x] Fix bug'' = ''Fix bug''" "item_text ''- Fix bug'' = ''Fix bug''"
    "item_text ''- [ ] Fix bug'' = ''Fix bug''"
    by code_simp+
  show ?thesis
    unfolding parse_line_def Let_def a by (simp only: b c if_True if_False) simp
qed

subsection \<open>Classification of section headings\<close>

text \<open>
  Claim C1. For every section heading, \<^verbatim>\<open>_save_section\<close> classifies it by the six ordered
  rules of the specification, the first matching rule winning: the record it returns is the
  one obtained by appending the items to the category of the first matching rule, and the
  unchanged record when no rule matches. In particular a heading whose lower-cased name
  contains both \<^verbatim>\<open>pattern\<close> and \<^verbatim>\<open>watch\<close>, and none of \<^verbatim>\<open>discover\<close>,
  \<^verbatim>\<open>improvement\<close> with \<^verbatim>\<open>made\<close>, \<^verbatim>\<open>issue\<close>, \<^verbatim>\<open>created\<close>, \<^verbatim>\<open>question\<close>, goes to
  \<^verbatim>\<open>patterns_to_watch\<close> (rule 5), not to \<^verbatim>\<open>discoveries\<close>.
\<close>

theorem save_section_follows_rules:
  "save_section r heading items =
     (case spec_classify heading of None \<Rightarrow> r | Some c \<Rightarrow> spec_append c items r) \<and>
   (contains (lower heading) ''pattern'' \<and> contains (lower heading) ''watch'' \<and>
    \<not> contains (lower heading) ''discover'' \<and>
    \<not> (contains (lower heading) ''improvement'' \<and> contains (lower heading) ''made'') \<and>
    \<not> contains (lower heading) ''issue'' \<and> \<not> contains (lower heading) ''created'' \<and>
    \<not> contains (lower heading) ''question''
    \<longrightarrow> spec_classify heading = Some Patterns_to_watch \<and>
        save_section r heading items = r\<lparr>patterns_to_watch := patterns_to_watch r @ items\<rparr>)"
  by (simp add: save_section_def spec_classify_def spec_rules_def Let_def)

theorem save_section_follows_rules_witness:
  "spec_classify ''Patterns to Watch'' = Some Patterns_to_watch \<and>
   save_section (new_reflection [] [] []) ''Patterns to Watch'' [''a''] =
     (new_reflection [] [] [])\<lparr>patterns_to_watch := [''a'']\<rparr>"
proof -
  have l: "lower ''Patterns to Watch'' = ''patterns to watch''" by code_simp
  have c: "contains ''patterns to watch'' ''pattern''" "contains ''patterns to watch'' ''watch''"
    "\<not> contains ''patterns to watch'' ''discover''"
    "\<not> contains ''patterns to watch'' ''improvement''"
    "\<not> contains ''patterns to watch'' ''issue''" "\<not> contains ''patterns to watch'' ''created''"
    "\<not> contains ''patterns to watch'' ''question''"
    by code_simp+
  have "patterns_to_watch (new_reflection [] [] []) = []"
    by (simp add: new_reflection_def)
  then show ?thesis
    using save_section_follows_rules [of "new_reflection [] [] []" "''Patterns to Watch''" "[''a'']"]
    unfolding l using c by simp
qed

subsection \<open>Items are never counted twice\<close>

lemma total_save_section:
  "total_items (save_section r s items) = total_items r + length items \<or>
   save_section r s items = r"
  by (simp add: save_section_def total_items_def Let_def)

lemma total_save_section_le:
  "total_items (save_section r s items) \<le> total_items r + length items"
  using total_save_section [of r s items] by auto

lemma total_flush_le:
  "total_items (flush st) \<le> total_items (reflection_of st) + length (current_items st)"
  by (simp add: flush_def total_save_section_le)

lemma total_summary [simp]: "total_items (r\<lparr>summary := x\<rparr>) = total_items r"
  by (simp add: total_items_def)

lemma parse_line_bound:
  "total_items (reflection_of (parse_line st l)) + length (current_items (parse_line st l))
     \<le> total_items (reflection_of st) + length (current_items st) +
        (if is_list_item_line l then 1 else 0)"
  using total_flush_le [of st]
  by (simp add: parse_line_def Let_def is_list_item_line_def)

lemma foldl_parse_line_bound:
  "total_items (reflection_of (foldl parse_line st ls)) +
     length (current_items (foldl parse_line st ls))
   \<le> total_items (reflection_of st) + length (current_items st) +
      length (filter is_list_item_line ls)"
proof (induction ls arbitrary: st)
  case Nil
  then show ?case by simp
next
  case (Cons l ls)
  show ?case
    using Cons.IH [of "parse_line st l"] parse_line_bound [of st l]
    by (simp split: if_splits)
qed

lemma parse_content_bound:
  "total_items (parse_content r content) \<le> total_items r + list_item_lines content"
proof -
  let ?st = "foldl parse_line \<lparr>reflection_of = r, current_section = None, current_items = []\<rparr>
               (split_lines content)"
  have "total_items (flush ?st) \<le> total_items (reflection_of ?st) + length (current_items ?st)"
    by (rule total_flush_le)
  also have "\<dots> \<le> total_items r + list_item_lines content"
    using foldl_parse_line_bound
      [of "\<lparr>reflection_of = r, current_section = None, current_items = []\<rparr>" "split_lines content"]
    by (simp add: list_item_lines_def)
  finally show ?thesis by (simp add: parse_content_def)
qed

lemma total_new_reflection [simp]: "total_items (new_reflection p d t) = 0"
  by (simp add: new_reflection_def total_items_def)

lemma save_section_spec:
  "save_section r s items =
     (case spec_classify s of None \<Rightarrow> r | Some c \<Rightarrow> spec_append c items r)"
  by (simp add: save_section_def spec_classify_def spec_rules_def Let_def)

lemma save_section_unmatched:
  "spec_classify s = None \<Longrightarrow> save_section r s items = r"
  by (simp add: save_section_spec)

lemma parse_content_new_bound:
  "total_items (parse_content (new_reflection p d t) content) \<le> list_item_lines content"
  using parse_content_bound [of "new_reflection p d t" content] by simp

text \<open>
  Claim C3. For every document text, the number of items stored in the six category lists
  of the parsed record is at most the number of list-item lines of the text. Saving a
  section appends its items to exactly one category or to none (the record is unchanged),
  and to none when no rule matches the section name: the items under \<^verbatim>\<open>## Random Notes\<close>
  appear in no category list.
\<close>

theorem items_bounded_by_list_item_lines:
  "(read_text fp = Some content \<longrightarrow>
      (\<exists>r. parse_reflection_file fp = Some r \<and> total_items r \<le> list_item_lines content)) \<and>
   (\<forall>r s items. total_items (save_section r s items) = total_items r + length items \<or>
                 save_section r s items = r) \<and>
   (\<forall>r s items. spec_classify s = None \<longrightarrow> save_section r s items = r) \<and>
   spec_classify ''random notes'' = None \<and>
   list_item_lines ''## Random Notes\<newline>- first\<newline>- second'' = 2 \<and>
   parse_reflection_file random_notes_file = Some (new_reflection ''notes.md'' [] ''notes'')"
proof -
  have a: "read_text fp = Some content \<longrightarrow>
      (\<exists>r. parse_reflection_file fp = Some r \<and> total_items r \<le> list_item_lines content)"
    using parse_content_new_bound
    by (auto simp: parse_reflection_file_def Let_def split: option.splits prod.splits)
  have b: "spec_classify ''random notes'' = None" by code_simp
  have c: "list_item_lines ''## Random Notes\<newline>- first\<newline>- second'' = 2" by code_simp
  have d: "parse_reflection_file random_notes_file = Some (new_reflection ''notes.md'' [] ''notes'')"
    by code_simp
  show ?thesis
    using a b c d total_save_section save_section_unmatched by blast
qed

theorem items_bounded_by_list_item_lines_witness:
  "read_text random_notes_file = Some ''## Random Notes\<newline>- first\<newline>- second'' \<and>
   (\<exists>r. parse_reflection_file random_notes_file = Some r \<and>
        total_items r \<le> list_item_lines ''## Random Notes\<newline>- first\<newline>- second'') \<and>
   spec_classify ''random notes'' = None \<and>
   save_section (new_reflection [] [] []) ''random notes'' [''first''] = new_reflection [] [] []"
  using items_bounded_by_list_item_lines
    [of random_notes_file "''## Random Notes\<newline>- first\<newline>- second''"]
  by (simp add: random_notes_file_def)

subsection \<open>A checkbox without text\<close>

text \<open>
  Claim C9 (evaluation of the code at its failing input). The line \<^verbatim>\<open>- [x] \<close>, a checked
  checkbox with no text, is not discarded: stripping the line removes the blank after the
  token, the token test \<^verbatim>\<open>item.startswith("[x] ")\<close> then fails, and the text \<^verbatim>\<open>[x]\<close> is
  appended to the buffer and reaches the category list of its section.
\<close>

theorem empty_checkbox_item_kept:
  "parse_line st ''- [x] '' = st\<lparr>current_items := current_items st @ [''[x]'']\<rparr> \<and>
   parse_reflection_file empty_checkbox_file =
     Some ((new_reflection ''notes.md'' [] ''notes'')\<lparr>discoveries := [''[x]'']\<rparr>)"
proof -
  have a: "strip ''- [x] '' = ''- [x]''" by code_simp
  have b: "\<not> startswith ''- [x]'' ''## ''" "\<not> startswith ''- [x]'' ''### ''"
    "startswith ''- [x]'' ''- ''"
    by code_simp+
  have c: "item_text ''- [x]'' = ''[x]''" by code_simp
  have d: "parse_reflection_file empty_checkbox_file =
     Some ((new_reflection ''notes.md'' [] ''notes'')\<lparr>discoveries := [''[x]'']\<rparr>)"
    by code_simp
  have "parse_line st ''- [x] '' = st\<lparr>current_items := current_items st @ [''[x]'']\<rparr>"
    unfolding parse_line_def Let_def a by (simp only: b c if_True if_False) simp
  with d show ?thesis by simp
qed

subsection \<open>Date and topic of a record\<close>











lemma save_section_date_topic [simp]:
  "date (save_section r s items) = date r" "topic (save_section r s items) = topic r"
  by (simp_all add: save_section_def Let_def)

lemma flush_date_topic [simp]:
  "date (flush st) = date (reflection_of st)" "topic (flush st) = topic (reflection_of st)"
  by (simp_all add: flush_def)

lemma parse_line_date_topic [simp]:
  "date (reflection_of (parse_line st l)) = date (reflection_of st)"
  "topic (reflection_of (parse_line st l)) = topic (reflection_of st)"
  by (simp_all add: parse_line_def Let_def)

lemma foldl_parse_line_date_topic [simp]:
  "date (reflection_of (foldl parse_line st ls)) = date (reflection_of st)"
  "topic (reflection_of (foldl parse_line st ls)) = topic (reflection_of st)"
  by (induction ls arbitrary: st) simp_all

lemma parse_content_date_topic [simp]:
  "date (parse_content r content) = date r" "topic (parse_content r content) = topic r"
  by (simp_all add: parse_content_def)




subsection \<open>Unreadable files\<close>






end
